theory Spec2Isabelle
  imports Complex_Main "HOL-Library.Char_ord"
begin

section \<open>Python strings\<close>

text \<open>
  Texts are lists of characters with code points below 256. The helpers follow the
  Python string methods the sources call: \<^verbatim>\<open>str.lower\<close> (on the ASCII letters),
  \<^verbatim>\<open>str.startswith\<close>, \<^verbatim>\<open>sub in s\<close>, \<^verbatim>\<open>str.strip\<close> and slicing
  \<^verbatim>\<open>s[:n]\<close> (which is \<^const>\<open>take\<close>).
\<close>

definition lower_char :: "char \<Rightarrow> char" where
  "lower_char c =
     (case map_of (zip ''ABCDEFGHIJKLMNOPQRSTUVWXYZ'' ''abcdefghijklmnopqrstuvwxyz'') c of
        Some d \<Rightarrow> d
      | None \<Rightarrow> c)"

definition lower :: "string \<Rightarrow> string" where
  "lower s = map lower_char s"

fun startswith :: "string \<Rightarrow> string \<Rightarrow> bool" where
  "startswith s [] = True"
| "startswith [] (p # ps) = False"
| "startswith (c # cs) (p # ps) = (c = p \<and> startswith cs ps)"

fun contains :: "string \<Rightarrow> string \<Rightarrow> bool" where
  "contains [] sub = (sub = [])"
| "contains (c # cs) sub = (startswith (c # cs) sub \<or> contains cs sub)"

definition is_space :: "char \<Rightarrow> bool" where
  "is_space c = (c \<in> set [CHR '' '', CHR 0x09, CHR 0x0A, CHR 0x0B, CHR 0x0C, CHR 0x0D,
                            CHR 0x1C, CHR 0x1D, CHR 0x1E, CHR 0x1F, CHR 0x85, CHR 0xA0])"

definition is_digit :: "char \<Rightarrow> bool" where
  "is_digit c = (c \<in> set ''0123456789'')"

definition strip :: "string \<Rightarrow> string" where
  "strip s = rev (dropWhile is_space (rev (dropWhile is_space s)))"

text \<open>\<^verbatim>\<open>s[:n] + "..." if len(s) > n else s\<close>, the shortening used for fallbacks and logs.\<close>

definition truncated :: "nat \<Rightarrow> string \<Rightarrow> string" where
  "truncated n s = (if length s > n then take n s @ ''...'' else s)"

section \<open>Exceptions\<close>

text \<open>
  An exception value carries what the sources inspect: the class (module and
  \<^verbatim>\<open>__name__\<close>), \<^verbatim>\<open>str(e)\<close>, the chained \<^verbatim>\<open>__cause__\<close> and \<^verbatim>\<open>__context__\<close>,
  the exceptions found among \<^verbatim>\<open>e.args\<close>, and the optional attributes
  \<^verbatim>\<open>retry_after\<close>, \<^verbatim>\<open>details\<close>, \<^verbatim>\<open>status_code\<close> and \<^verbatim>\<open>code\<close>.
  An absent attribute is \<^const>\<open>None\<close>. For \<^verbatim>\<open>retry_after\<close> the inner option is the
  outcome of \<^verbatim>\<open>float(e.retry_after)\<close>: \<^const>\<open>None\<close> when it raises ValueError or
  TypeError. \<^verbatim>\<open>details\<close> holds \<^verbatim>\<open>str(e.details)\<close>.
\<close>

datatype code_val = CodeInt int | CodeStr string

datatype exn = Exn
  (type_module: string)
  (type_name: string)
  (msg: string)
  (cause: "exn option")
  (ctxt: "exn option")
  (arg_errors: "exn list")
  (retry_after: "rat option option")
  (details: "string option")
  (status_code: "int option")
  (code: "code_val option")

text \<open>A plain exception of class \<open>n\<close> with message \<open>m\<close>, nothing chained, no attributes.\<close>

definition plain_exn :: "string \<Rightarrow> string \<Rightarrow> exn" where
  "plain_exn n m = Exn [] n m None None [] None None None None"

text \<open>\<^verbatim>\<open>str(type(e))\<close>, as in \<^verbatim>\<open><class 'google.api_core.exceptions.ResourceExhausted'>\<close>.\<close>

definition str_type :: "exn \<Rightarrow> string" where
  "str_type e =
     ''<class '' @ [CHR 0x27] @
     (if type_module e = [] then type_name e else type_module e @ ''.'' @ type_name e) @
     [CHR 0x27] @ ''>''"

section \<open>Regular expressions of \<^verbatim>\<open>rate_limit.py\<close>\<close>

text \<open>
  The patterns of the source use literals (matched ignoring case, as every search passes
  \<^verbatim>\<open>re.IGNORECASE\<close>), greedy repetitions of one character class, one optional group,
  one capturing group and a negative lookahead. \<open>rx_match\<close> is a backtracking matcher:
  it lists the ways a pattern matches at the start of a text, in the order Python's
  engine tries them (longest repetition first, an optional group taken before skipped),
  each with the rest of the text and the text captured by group 1.
\<close>

datatype cls = Space | Digit | NonDigit | NotRBrace | AnyButNL

fun in_cls :: "cls \<Rightarrow> char \<Rightarrow> bool" where
  "in_cls Space c = is_space c"
| "in_cls Digit c = is_digit c"
| "in_cls NonDigit c = (\<not> is_digit c)"
| "in_cls NotRBrace c = (c \<noteq> CHR ''}'')"
| "in_cls AnyButNL c = (c \<noteq> CHR 0x0A)"

datatype rx =
    Lit string
  | One cls
  | Rep cls nat
  | Opt "rx list"
  | Cap "rx list"
  | NotAhead string

text \<open>\<open>ci_startswith s l\<close>: the literal \<open>l\<close> (written in lower case) starts \<open>s\<close>, ignoring case.\<close>

definition ci_startswith :: "string \<Rightarrow> string \<Rightarrow> bool" where
  "ci_startswith s l = startswith (lower (take (length l) s)) l"

text \<open>The texts left after a greedy run of class \<open>k\<close>, longest run first.\<close>

fun rep_rests :: "cls \<Rightarrow> string \<Rightarrow> string list" where
  "rep_rests k [] = [[]]"
| "rep_rests k (c # cs) = (if in_cls k c then rep_rests k cs @ [c # cs] else [c # cs])"

fun rx_match :: "rx list \<Rightarrow> string \<Rightarrow> string option \<Rightarrow> (string \<times> string option) list" where
  "rx_match [] s g = [(s, g)]"
| "rx_match (Lit l # rs) s g =
     (if ci_startswith s l then rx_match rs (drop (length l) s) g else [])"
| "rx_match (One k # rs) s g =
     (case s of [] \<Rightarrow> [] | c # cs \<Rightarrow> if in_cls k c then rx_match rs cs g else [])"
| "rx_match (Rep k n # rs) s g =
     concat (map (\<lambda>s'. rx_match rs s' g)
                 (filter (\<lambda>s'. n + length s' \<le> length s) (rep_rests k s)))"
| "rx_match (Opt p # rs) s g =
     concat (map (\<lambda>(s', g'). rx_match rs s' g') (rx_match p s g)) @ rx_match rs s g"
| "rx_match (Cap p # rs) s g =
     concat (map (\<lambda>(s', g'). rx_match rs s' (Some (take (length s - length s') s)))
                 (rx_match p s g))"
| "rx_match (NotAhead l # rs) s g = (if ci_startswith s l then [] else rx_match rs s g)"

text \<open>
  \<^verbatim>\<open>re.search\<close>: the first way to match at the leftmost position that matches at all;
  the result is the text of group 1.
\<close>

fun rx_search :: "rx list \<Rightarrow> string \<Rightarrow> string option option" where
  "rx_search p [] = (case rx_match p [] None of [] \<Rightarrow> None | (r, g) # _ \<Rightarrow> Some g)"
| "rx_search p (c # cs) =
     (case rx_match p (c # cs) None of [] \<Rightarrow> rx_search p cs | (r, g) # _ \<Rightarrow> Some g)"

definition rx_found :: "rx list \<Rightarrow> string \<Rightarrow> bool" where
  "rx_found p s = (rx_search p s \<noteq> None)"

text \<open>
  \<^verbatim>\<open>float(match.group(1))\<close> on a group of the shape \<^verbatim>\<open>\d+(?:\.\d+)?\<close>. The decimal
  numeral is read exactly, as a rational; Python rounds it to the nearest binary64 value,
  which keeps the order of the comparisons below except for numerals within rounding
  distance of a bound.
\<close>

definition digit_val :: "char \<Rightarrow> nat" where
  "digit_val c = (case map_of (zip ''0123456789'' [0, 1, 2, 3, 4, 5, 6, 7, 8, 9]) c of
                    Some d \<Rightarrow> d | None \<Rightarrow> 0)"

definition digits_val :: "string \<Rightarrow> nat" where
  "digits_val ds = foldl (\<lambda>a c. 10 * a + digit_val c) 0 ds"

definition float_of_group :: "string \<Rightarrow> rat" where
  "float_of_group t =
     (let ip = takeWhile is_digit t; fp = drop (Suc (length ip)) t
      in of_nat (digits_val ip) + of_nat (digits_val fp) / 10 ^ length fp)"

section \<open>Binary floating point\<close>

text \<open>
  Python floats are binary64 values. A value is written as a pair \<open>(m, k)\<close> standing for
  \<open>m * 2 ^ k\<close>. \<open>round_ratio n d\<close> is the value nearest to \<open>n / d\<close> for positive \<open>n\<close> and
  \<open>d\<close>, ties to the even mantissa, with 53 bits of mantissa; \<open>fl x\<close> is the binary64 value
  nearest to the rational \<open>x\<close>. Subnormal numbers are left out; overflow is handled where an
  operation can raise.
\<close>

function ilog2 :: "int \<Rightarrow> int" where
  "ilog2 n = (if n < 2 then 0 else 1 + ilog2 (n div 2))"
  by pat_completeness auto
termination
  by (relation "measure nat") auto

type_synonym dbl = "int \<times> int"

definition round_ratio :: "int \<Rightarrow> int \<Rightarrow> dbl" where
  "round_ratio n d =
     (let t = ilog2 n - ilog2 d;
          e = (if (if 0 \<le> t then d * 2 ^ nat t \<le> n else d \<le> n * 2 ^ nat (- t)) then t else t - 1);
          k = e - 52;
          num = (if k < 0 then n * 2 ^ nat (- k) else n);
          den = (if k < 0 then d else d * 2 ^ nat k);
          q = num div den;
          r = num mod den;
          m = (if 2 * r < den then q else if den < 2 * r then q + 1
               else if even q then q else q + 1)
      in (m, k))"

definition dbl_ratio :: "int \<Rightarrow> int \<Rightarrow> dbl" where
  "dbl_ratio n d =
     (if n = 0 then (0, 0)
      else if 0 < n then round_ratio n d
      else (let (m, k) = round_ratio (- n) d in (- m, k)))"

definition dbl_val :: "dbl \<Rightarrow> rat" where
  "dbl_val x = (case x of (m, k) \<Rightarrow> if 0 \<le> k then of_int m * 2 ^ nat k else of_int m / 2 ^ nat (- k))"

definition fl :: "rat \<Rightarrow> rat" where
  "fl x = (case quotient_of x of (p, q) \<Rightarrow> dbl_val (dbl_ratio p q))"

text \<open>
  \<^verbatim>\<open>x ** n\<close> for a float \<open>x\<close> and a natural number \<open>n\<close>: the rounded power, or
  OverflowError when the power is beyond the largest binary64 value.
\<close>

definition float_pow :: "rat \<Rightarrow> nat \<Rightarrow> exn + rat" where
  "float_pow x n =
     (if 2 ^ 1024 - 2 ^ 970 \<le> \<bar>x ^ n\<bar>
      then Inl (plain_exn ''OverflowError'' ''(34, Numerical result out of range)'')
      else Inr (fl (x ^ n)))"

section \<open>\<^verbatim>\<open>rate_limit.py\<close>\<close>

subsection \<open>\<^verbatim>\<open>extract_wait_seconds_from_error\<close>\<close>

definition number_group :: rx where
  "number_group = Cap [Rep Digit 1, Opt [Lit ''.'', Rep Digit 1]]"

definition patterns :: "rx list list" where
  "patterns =
    [ [Lit ''please'', Rep Space 1, Lit ''retry'', Rep Space 1, Lit ''in'', Rep Space 1,
       number_group, Rep Space 0, Lit ''s''],
      [Lit ''retry'', Rep Space 1, Lit ''in'', Rep Space 1, number_group, Rep Space 0,
       Lit ''s'', NotAhead ''econds''],
      [Lit ''retry'', Rep Space 1, Lit ''in'', Rep Space 1, number_group, Rep Space 0,
       Lit ''second'', Opt [Lit ''s'']],
      [Lit ''retry'', Rep Space 1, Lit ''after'', Rep Space 1, number_group, Rep Space 0,
       Lit ''second'', Opt [Lit ''s'']],
      [Lit ''retry'', Rep Space 1, Lit ''after'', Rep Space 1, number_group, Rep Space 0,
       Lit ''s'', NotAhead ''econds''],
      [Lit ''wait'', Rep Space 1, number_group, Rep Space 0, Lit ''second'', Opt [Lit ''s'']],
      [number_group, Rep Space 0, Lit ''second'', Opt [Lit ''s''], Rep Space 0, Lit ''to'',
       Rep Space 0, Lit ''retry''],
      [number_group, Rep Space 0, Lit ''s'', NotAhead ''econds'', Rep Space 0, One NonDigit],
      [Lit ''retry_delay'', Rep Space 0, Lit ''{'', Rep Space 0, Lit ''seconds:'', Rep Space 0,
       Cap [Rep Digit 1]],
      [Lit ''seconds:'', Rep Space 0, Cap [Rep Digit 1]] ]"

text \<open>The multi-line search made first: \<^verbatim>\<open>retry_delay\s*\{[^}]*seconds:\s*(\d+)\<close>.\<close>

definition retry_delay_block :: "rx list" where
  "retry_delay_block =
     [Lit ''retry_delay'', Rep Space 0, Lit ''{'', Rep NotRBrace 0, Lit ''seconds:'',
      Rep Space 0, Cap [Rep Digit 1]]"

text \<open>
  One search and its sanity check: the wait of the match when it lies between \<open>lo\<close> and
  3600, both bounds included (\<^verbatim>\<open>lo <= wait_time <= 3600\<close>).
\<close>

definition wait_from :: "rat \<Rightarrow> rx list \<Rightarrow> string \<Rightarrow> rat option" where
  "wait_from lo p s =
     (case rx_search p s of
        Some (Some t) \<Rightarrow>
          (let wait_time = float_of_group t
           in if lo \<le> wait_time \<and> wait_time \<le> 3600 then Some wait_time else None)
      | _ \<Rightarrow> None)"

text \<open>The loop over \<^verbatim>\<open>patterns\<close>: the first pattern whose match passes the check.\<close>

fun first_wait :: "rat \<Rightarrow> rx list list \<Rightarrow> string \<Rightarrow> rat option" where
  "first_wait lo [] s = None"
| "first_wait lo (p # ps) s =
     (case wait_from lo p s of Some w \<Rightarrow> Some w | None \<Rightarrow> first_wait lo ps s)"

definition wait_in_text :: "string \<Rightarrow> rat option" where
  "wait_in_text error_str =
     (case wait_from (1 / 10) retry_delay_block error_str of
        Some w \<Rightarrow> Some w
      | None \<Rightarrow> first_wait (1 / 10) patterns error_str)"

definition errors_to_check :: "exn \<Rightarrow> exn list" where
  "errors_to_check error =
     [error] @ (case cause error of Some c \<Rightarrow> [c] | None \<Rightarrow> [])
             @ (case ctxt error of Some c \<Rightarrow> [c] | None \<Rightarrow> [])
             @ arg_errors error"

fun first_wait_in_errors :: "exn list \<Rightarrow> rat option" where
  "first_wait_in_errors [] = None"
| "first_wait_in_errors (err # errs) =
     (case wait_in_text (msg err) of Some w \<Rightarrow> Some w | None \<Rightarrow> first_wait_in_errors errs)"

definition wait_from_retry_after :: "exn \<Rightarrow> rat option" where
  "wait_from_retry_after error =
     (case retry_after error of
        Some (Some wait_time) \<Rightarrow> if 1 \<le> wait_time \<and> wait_time \<le> 3600 then Some wait_time else None
      | _ \<Rightarrow> None)"

definition wait_from_details :: "exn \<Rightarrow> rat option" where
  "wait_from_details error =
     (case details error of
        Some d \<Rightarrow> first_wait 1 patterns (lower d)
      | None \<Rightarrow> None)"

definition extract_wait_seconds_from_error :: "exn \<Rightarrow> rat option" where
  "extract_wait_seconds_from_error error =
     (case first_wait_in_errors (errors_to_check error) of
        Some w \<Rightarrow> Some w
      | None \<Rightarrow>
         (case wait_from_retry_after error of
            Some w \<Rightarrow> Some w
          | None \<Rightarrow> wait_from_details error))"

subsection \<open>\<^verbatim>\<open>is_rate_limit_error\<close>\<close>

text \<open>\<^verbatim>\<open>' '.join(parts)\<close>.\<close>

fun join_space :: "string list \<Rightarrow> string" where
  "join_space [] = []"
| "join_space [s] = s"
| "join_space (s # t # ts) = s @ '' '' @ join_space (t # ts)"

text \<open>Only the error itself, its cause and its context are looked at here.\<close>

definition chain_of :: "exn \<Rightarrow> exn list" where
  "chain_of error =
     [error] @ (case cause error of Some c \<Rightarrow> [c] | None \<Rightarrow> [])
             @ (case ctxt error of Some c \<Rightarrow> [c] | None \<Rightarrow> [])"

text \<open>
  Each indicator is used twice: as a plain substring of the joined type names and as a
  regular expression on the joined messages. The two indicators holding \<^verbatim>\<open>.*\<close> are
  given with both readings.
\<close>

definition rate_limit_indicators :: "(string \<times> rx list) list" where
  "rate_limit_indicators =
    [ (''ratelimiterror'', [Lit ''ratelimiterror'']),
      (''rate_limit'', [Lit ''rate_limit'']),
      (''resource_exhausted'', [Lit ''resource_exhausted'']),
      (''quota_exceeded'', [Lit ''quota_exceeded'']),
      (''429'', [Lit ''429'']),
      (''too_many_requests'', [Lit ''too_many_requests'']),
      (''exceeded.*quota'', [Lit ''exceeded'', Rep AnyButNL 0, Lit ''quota'']),
      (''quota.*limit'', [Lit ''quota'', Rep AnyButNL 0, Lit ''limit'']) ]"

definition quota_patterns :: "rx list list" where
  "quota_patterns =
    [ [Lit ''exceeded'', Rep AnyButNL 0, Lit ''quota''],
      [Lit ''quota'', Rep AnyButNL 0, Lit ''exceeded''],
      [Lit ''429'', Rep AnyButNL 0, Lit ''quota''],
      [Lit ''rate'', Rep AnyButNL 0, Lit ''limit'', Rep AnyButNL 0, Lit ''exceeded''] ]"

definition code_is_rate_limit :: "code_val \<Rightarrow> bool" where
  "code_is_rate_limit c =
     (case c of
        CodeInt n \<Rightarrow> n = 429
      | CodeStr s \<Rightarrow> contains (lower s) ''resource_exhausted'')"

definition is_rate_limit_error :: "exn \<Rightarrow> bool" where
  "is_rate_limit_error error =
     (let errs = chain_of error;
          all_text = join_space (map (\<lambda>e. lower (msg e)) errs);
          all_types = join_space (map (\<lambda>e. lower (type_name e)) errs)
      in contains all_types ''resourceexhausted'' \<or> contains (str_type error) ''ResourceExhausted''
         \<or> list_ex (\<lambda>(indicator, r). contains all_types indicator \<or> rx_found r all_text)
                    rate_limit_indicators
         \<or> list_ex (\<lambda>e. status_code e = Some 429) errs
         \<or> list_ex (\<lambda>e. case code e of Some c \<Rightarrow> code_is_rate_limit c | None \<Rightarrow> False) errs
         \<or> list_ex (\<lambda>r. rx_found r all_text) quota_patterns)"

subsection \<open>\<^verbatim>\<open>with_rate_limit_retry\<close>\<close>

text \<open>
  The outside world of a provider call. A provider is a script: the outcome of its
  \<open>n\<close>-th invocation, an exception or a value. The world counts the invocations made and
  the draws taken from the random generator, and records every \<^verbatim>\<open>time.sleep\<close> and every
  progress value handed to the progress callback, in order.
\<close>

type_synonym 'a provider = "nat \<Rightarrow> exn + 'a"

record world =
  calls :: nat
  draws :: nat
  sleeps :: "rat list"
  reported :: "int list"

definition world0 :: world where
  "world0 = \<lparr>calls = 0, draws = 0, sleeps = [], reported = []\<rparr>"

definition invoke :: "'a provider \<Rightarrow> world \<Rightarrow> (exn + 'a) \<times> world" where
  "invoke func w = (func (calls w), w\<lparr>calls := Suc (calls w)\<rparr>)"

text \<open>
  \<^verbatim>\<open>time.sleep\<close>: ValueError for a negative duration, OverflowError for one that does not
  fit the 64-bit nanosecond clock; otherwise the duration is recorded.
\<close>

definition sleep :: "rat \<Rightarrow> world \<Rightarrow> exn + world" where
  "sleep t w =
     (if t < 0 then Inl (plain_exn ''ValueError'' ''sleep length must be non-negative'')
      else if (2 ^ 63 - 1) / 10 ^ 9 < t
      then Inl (plain_exn ''OverflowError'' ''timestamp too large to convert to C PyTime_t'')
      else Inr (w\<lparr>sleeps := sleeps w @ [t]\<rparr>))"

text \<open>Python's truth value of an extracted wait: \<^verbatim>\<open>None\<close> and \<^verbatim>\<open>0.0\<close> are false.\<close>

definition truthy_wait :: "rat option \<Rightarrow> bool" where
  "truthy_wait x = (case x of Some t \<Rightarrow> t \<noteq> 0 | None \<Rightarrow> False)"

text \<open>\<^verbatim>\<open>default_wait * (backoff_multiplier ** attempt)\<close>, in binary64.\<close>

definition backoff_wait :: "rat \<Rightarrow> rat \<Rightarrow> nat \<Rightarrow> exn + rat" where
  "backoff_wait default_wait backoff_multiplier attempt =
     (case float_pow backoff_multiplier attempt of
        Inl err \<Rightarrow> Inl err
      | Inr p \<Rightarrow> Inr (fl (default_wait * p)))"

text \<open>
  The loop \<^verbatim>\<open>for attempt in range(max_retries + 1)\<close> of the wrapper, over the attempts
  still to run. An exception raised inside the handler, by the power or by
  \<^verbatim>\<open>time.sleep\<close>, leaves the wrapper at once.
\<close>

fun retry_attempts ::
  "int \<Rightarrow> rat \<Rightarrow> rat \<Rightarrow> 'a provider \<Rightarrow> nat list \<Rightarrow> exn option \<Rightarrow> world \<Rightarrow> (exn + 'a) \<times> world" where
  "retry_attempts max_retries default_wait backoff_multiplier func [] last_error w =
     (case last_error of
        Some e \<Rightarrow> (Inl e, w)
      | None \<Rightarrow> (Inl (plain_exn ''RuntimeError'' ''Unexpected error in rate limit retry logic''), w))"
| "retry_attempts max_retries default_wait backoff_multiplier func (attempt # rest) last_error w =
     (case invoke func w of
        (Inr v, w') \<Rightarrow> (Inr v, w')
      | (Inl e, w') \<Rightarrow>
          if is_rate_limit_error e then
            let extracted_wait = extract_wait_seconds_from_error e
            in case (if truthy_wait extracted_wait then Inr (the extracted_wait)
                     else backoff_wait default_wait backoff_multiplier attempt) of
                 Inl err \<Rightarrow> (Inl err, w')
               | Inr wait_time \<Rightarrow>
                   if int attempt < max_retries
                   then (case sleep wait_time w' of
                           Inl err \<Rightarrow> (Inl err, w')
                         | Inr w'' \<Rightarrow>
                             retry_attempts max_retries default_wait backoff_multiplier func
                               rest (Some e) w'')
                   else (Inl e, w')
          else (Inl e, w'))"

definition with_rate_limit_retry ::
  "int \<Rightarrow> rat \<Rightarrow> rat \<Rightarrow> 'a provider \<Rightarrow> world \<Rightarrow> (exn + 'a) \<times> world" where
  "with_rate_limit_retry max_retries default_wait backoff_multiplier func w =
     retry_attempts max_retries default_wait backoff_multiplier func
       [0 ..< nat (max_retries + 1)] None w"

section \<open>\<^verbatim>\<open>api/v1/documents.py\<close>: the document listing\<close>

text \<open>
  A stored document row. \<^verbatim>\<open>getattr(d, "status", "completed")\<close> tells a row without the
  attribute (\<open>Missing\<close>) from a row whose attribute holds a value, possibly \<^verbatim>\<open>None\<close>.
\<close>

datatype 'a attribute = Missing | Has 'a

record document =
  doc_id :: string
  doc_name :: string
  doc_pages :: int
  doc_status :: "string option attribute"
  doc_progress :: "int option attribute"
  doc_created_at :: string

record document_read =
  dr_id :: string
  dr_name :: string
  dr_pages :: int
  dr_status :: "string option"
  dr_progress :: "int option"
  dr_createdAt :: string

definition getattr :: "'a attribute \<Rightarrow> 'a \<Rightarrow> 'a" where
  "getattr a dflt = (case a of Missing \<Rightarrow> dflt | Has v \<Rightarrow> v)"

definition to_document_read :: "document \<Rightarrow> document_read" where
  "to_document_read d =
     \<lparr>dr_id = doc_id d, dr_name = doc_name d, dr_pages = doc_pages d,
      dr_status = getattr (doc_status d) (Some ''completed''),
      dr_progress = getattr (doc_progress d) (Some 0),
      dr_createdAt = doc_created_at d\<rparr>"

text \<open>\<open>docs\<close> is what \<^verbatim>\<open>list_documents(db)\<close> returned.\<close>

definition get_documents :: "document list \<Rightarrow> document_read list" where
  "get_documents docs =
     map to_document_read
       (filter (\<lambda>d. getattr (doc_status d) (Some ''completed'') \<noteq> Some ''failed'') docs)"

section \<open>Example inputs\<close>

definition invalid_key_error :: exn where
  "invalid_key_error = plain_exn ''ValueError'' ''API key not valid''"

definition old_row :: document where
  "old_row = \<lparr>doc_id = ''a'', doc_name = ''old.pdf'', doc_pages = 3, doc_status = Missing,
              doc_progress = Missing, doc_created_at = ''2024-01-01T00:00:00+00:00''\<rparr>"

definition failed_row :: document where
  "failed_row = \<lparr>doc_id = ''b'', doc_name = ''bad.pdf'', doc_pages = 1,
                 doc_status = Has (Some ''failed''), doc_progress = Has (Some 0),
                 doc_created_at = ''2024-01-02T00:00:00+00:00''\<rparr>"






definition quota_error :: exn where
  "quota_error = plain_exn ''ResourceExhausted'' ''429 Too Many Requests''"

definition limited_twice :: "string provider" where
  "limited_twice n = (if n < 2 then Inl quota_error else Inr ''answer'')"

section \<open>Properties\<close>

subsection \<open>The retry wrapper and errors that are not rate limits\<close>

lemma retry_attempts_not_rate_limit:
  assumes "func (calls w) = Inl e" and "\<not> is_rate_limit_error e"
  shows "retry_attempts max_retries default_wait backoff_multiplier func (attempt # rest) last_error w
         = (Inl e, w\<lparr>calls := Suc (calls w)\<rparr>)"
  using assms by (simp add: invoke_def)

text \<open>
  Claim C5. When the wrapped operation raises an error that \<^verbatim>\<open>is_rate_limit_error\<close>
  does not classify as a rate limit, the wrapper makes exactly one call, never sleeps, and
  raises that same error: the world afterwards differs from the world before only by one
  more call.
\<close>

theorem non_rate_limit_error_not_retried:
  assumes "0 \<le> max_retries"
    and "func (calls w) = Inl e"
    and "\<not> is_rate_limit_error e"
  shows "with_rate_limit_retry max_retries default_wait backoff_multiplier func w
         = (Inl e, w\<lparr>calls := Suc (calls w)\<rparr>)"
proof -
  from assms(1) have "0 < nat (max_retries + 1)" by simp
  then have "[0 ..< nat (max_retries + 1)] = 0 # [Suc 0 ..< nat (max_retries + 1)]"
    by (simp add: upt_conv_Cons)
  then show ?thesis
    unfolding with_rate_limit_retry_def
    by (simp only: retry_attempts_not_rate_limit [where func = func and w = w and e = e,
          OF assms(2) assms(3)])
qed

lemma invalid_key_error_not_rate_limit: "\<not> is_rate_limit_error invalid_key_error"
  unfolding invalid_key_error_def by code_simp

theorem non_rate_limit_error_not_retried_witness:
  "(0::int) \<le> 3
   \<and> \<not> is_rate_limit_error invalid_key_error
   \<and> with_rate_limit_retry 3 60 (3 / 2) (\<lambda>n. Inl invalid_key_error :: exn + string) world0
       = (Inl invalid_key_error, world0\<lparr>calls := Suc 0\<rparr>)"
proof -
  have c: "calls world0 = 0" by (simp add: world0_def)
  show ?thesis
    using non_rate_limit_error_not_retried
      [of 3 "\<lambda>n. Inl invalid_key_error :: exn + string" world0 invalid_key_error 60 "3 / 2"]
      invalid_key_error_not_rate_limit c
    by simp
qed

subsection \<open>The document listing\<close>

text \<open>
  Claim C10. No listed document has status \<^verbatim>\<open>failed\<close>, and a stored row that lacks the
  status attribute is listed with status \<^verbatim>\<open>completed\<close>.
\<close>

theorem get_documents_hides_failed:
  "(\<forall>r \<in> set (get_documents docs). dr_status r \<noteq> Some ''failed'')
   \<and> (\<forall>d \<in> set docs. doc_status d = Missing \<longrightarrow>
         to_document_read d \<in> set (get_documents docs)
         \<and> dr_status (to_document_read d) = Some ''completed'')"
  by (auto simp: get_documents_def to_document_read_def getattr_def)

theorem get_documents_hides_failed_witness:
  "get_documents [failed_row, old_row] = [to_document_read old_row]
   \<and> dr_status (to_document_read old_row) = Some ''completed''
   \<and> doc_status old_row = Missing"
  using get_documents_hides_failed [of "[failed_row, old_row]"]
  by (simp add: get_documents_def getattr_def old_row_def failed_row_def to_document_read_def)

subsection \<open>Extraction of the wait hint\<close>

















subsection \<open>Waits of the retry wrapper\<close>

lemma quota_error_facts:
  "is_rate_limit_error quota_error" "extract_wait_seconds_from_error quota_error = None"
  unfolding quota_error_def by code_simp+

lemma backoff_wait_60: "backoff_wait 60 (3 / 2) 0 = Inr 60" "backoff_wait 60 (3 / 2) (Suc 0) = Inr 90"
  by code_simp+

text \<open>
  Claim C6. With the settings of the chat call (three retries, 60 seconds, multiplier 1.5)
  and a provider that answers after two rate-limit errors without a hint, the wrapper
  sleeps exactly 60 and then 90 seconds and draws nothing from the random generator: the
  waits are the base waits, with no jitter added.
\<close>

theorem retry_sleeps_without_jitter:
  "with_rate_limit_retry 3 60 (3 / 2) limited_twice world0
     = (Inr ''answer'', \<lparr>calls = 3, draws = 0, sleeps = [60, 90], reported = []\<rparr>)"
  by (simp add: with_rate_limit_retry_def upt_conv_Cons invoke_def world0_def limited_twice_def
        quota_error_facts truthy_wait_def backoff_wait_60 sleep_def)

end
